theory Spec2Isabelle
  imports Main
begin

section \<open>Python string operations used by the handler\<close>

text \<open>
  A Python \<open>str\<close> is modelled as a \<open>string\<close> holding its UTF-8 bytes, so ASCII text is
  one character per code point. The handler only searches for ASCII literals, and UTF-8
  never uses the byte of an ASCII character inside a longer sequence, so \<open>startswith\<close>,
  \<open>endswith\<close>, \<open>rstrip('/')\<close>, \<open>lstrip('/')\<close> and the slice \<open>path[len('/proxy/'):]\<close> act on
  the bytes as they act on the code points.
\<close>

definition startswith :: "string \<Rightarrow> string \<Rightarrow> bool" where
  "startswith s p = (take (length p) s = p)"

definition endswith :: "string \<Rightarrow> string \<Rightarrow> bool" where
  "endswith s p = (length p \<le> length s \<and> drop (length s - length p) s = p)"

text \<open>\<open>s.lstrip(c)\<close> and \<open>s.rstrip(c)\<close> for a one-character argument: every leading
  (trailing) occurrence of the character is removed.\<close>

definition lstrip :: "string \<Rightarrow> char \<Rightarrow> string" where
  "lstrip s c = dropWhile (\<lambda>x. x = c) s"

definition rstrip :: "string \<Rightarrow> char \<Rightarrow> string" where
  "rstrip s c = rev (dropWhile (\<lambda>x. x = c) (rev s))"

section \<open>URL construction (lines 132 to 137 of handle\_proxy\_request)\<close>

definition target_url :: "string \<Rightarrow> string \<Rightarrow> string" where
  "target_url openwebui_url api_endpoint =
     (if endswith api_endpoint ''chat/completions''
      then rstrip openwebui_url CHR ''/'' @ ''/api/v1/'' @ lstrip api_endpoint CHR ''/''
      else rstrip openwebui_url CHR ''/'' @ ''/'' @ lstrip api_endpoint CHR ''/'')"

text \<open>The construction as the specification words it: exactly one trailing slash of the
  base and exactly one leading slash of the sub-path are trimmed.\<close>

definition trim_one_trailing :: "string \<Rightarrow> string" where
  "trim_one_trailing b = (if endswith b ''/'' then butlast b else b)"

definition trim_one_leading :: "string \<Rightarrow> string" where
  "trim_one_leading s = (if startswith s ''/'' then tl s else s)"

definition spec_target_url :: "string \<Rightarrow> string \<Rightarrow> string" where
  "spec_target_url b s =
     (if endswith s ''chat/completions''
      then trim_one_trailing b @ ''/api/v1/'' @ trim_one_leading s
      else trim_one_trailing b @ ''/'' @ trim_one_leading s)"

section \<open>Library functions the handler calls\<close>

subsection \<open>Decimal text of integers (\<open>str(n)\<close>, \<open>%d\<close>)\<close>

fun str_nat :: "nat \<Rightarrow> string" where
  "str_nat n =
     (if n < 10 then [char_of (48 + n)]
      else str_nat (n div 10) @ [char_of (48 + n mod 10)])"

declare str_nat.simps [simp del]

definition str_int :: "int \<Rightarrow> string" where
  "str_int i = (if i < 0 then CHR ''-'' # str_nat (nat (- i)) else str_nat (nat i))"

subsection \<open>Header names: \<open>str.lower()\<close> and \<open>Message.get\<close>\<close>

text \<open>\<open>lower\<close> folds the ASCII letters. Header names reach the handler decoded as
  Latin-1 (by \<open>http.server\<close> for the request, by \<open>http.client\<close> for the upstream
  response), and in that range Python folds no other letter to an ASCII one, so
  comparing the result with an ASCII lower-case name gives the answer Python gives.\<close>

definition lower_char :: "char \<Rightarrow> char" where
  "lower_char c =
     (let n = of_char c :: nat in if 65 \<le> n \<and> n \<le> 90 then char_of (n + 32) else c)"

definition lower :: "string \<Rightarrow> string" where
  "lower s = map lower_char s"

type_synonym header_list = "(string \<times> string) list"

text \<open>\<open>headers.get(name)\<close>: the value of the first header whose name matches without
  regard to case, \<open>None\<close> when there is none.\<close>

definition headers_get :: "header_list \<Rightarrow> string \<Rightarrow> string option" where
  "headers_get hs name = map_option snd (find (\<lambda>kv. lower (fst kv) = lower name) hs)"

subsection \<open>Exceptions\<close>

text \<open>The exceptions raised inside the handler. \<open>BinasciiError\<close> and \<open>ValueError\<close> carry
  their message; \<open>UnicodeDecodeError\<close> carries the bytes that did not decode and
  \<open>InvalidLiteral\<close> (the \<open>ValueError\<close> of \<open>int()\<close>) the rejected text.\<close>

datatype exn =
    BinasciiError string
  | ValueError string
  | UnicodeDecodeError string
  | InvalidLiteral string

subsection \<open>\<open>base64.b64decode\<close> (not validating) and \<open>bytes.decode('utf-8')\<close>\<close>

definition b64_value :: "char \<Rightarrow> nat option" where
  "b64_value c =
     (let n = of_char c :: nat in
      if 65 \<le> n \<and> n \<le> 90 then Some (n - 65)
      else if 97 \<le> n \<and> n \<le> 122 then Some (n - 71)
      else if 48 \<le> n \<and> n \<le> 57 then Some (n + 4)
      else if n = 43 then Some 62
      else if n = 47 then Some 63
      else None)"

text \<open>\<open>binascii.a2b_base64\<close> with \<open>strict_mode\<close> off, as in CPython 3.11: the loop over
  the input with its state \<open>quad_pos\<close>, \<open>leftchar\<close>, \<open>pads\<close> and the bytes written so far.
  A character outside the alphabet is skipped; a pad that completes a quantum ends the
  decoding and whatever follows is not read.\<close>

fun a2b_base64 :: "nat \<Rightarrow> nat \<Rightarrow> nat \<Rightarrow> string \<Rightarrow> string \<Rightarrow> exn + string" where
  "a2b_base64 quad_pos leftchar pads bin [] =
     (if quad_pos = 0 then Inr bin
      else if quad_pos = 1 then
        Inl (BinasciiError (''Invalid base64-encoded string: number of data characters (''
               @ str_nat (length bin div 3 * 4 + 1)
               @ '') cannot be 1 more than a multiple of 4''))
      else Inl (BinasciiError ''Incorrect padding''))"
| "a2b_base64 quad_pos leftchar pads bin (c # cs) =
     (if c = CHR ''='' then
        (if 2 \<le> quad_pos \<and> 4 \<le> quad_pos + (pads + 1) then Inr bin
         else a2b_base64 quad_pos leftchar (if 2 \<le> quad_pos then pads + 1 else pads) bin cs)
      else
        (case b64_value c of
           None \<Rightarrow> a2b_base64 quad_pos leftchar pads bin cs
         | Some v \<Rightarrow>
            (if quad_pos = 0 then a2b_base64 1 v 0 bin cs
             else if quad_pos = 1 then
               a2b_base64 2 (v mod 16) 0 (bin @ [char_of (leftchar * 4 + v div 16)]) cs
             else if quad_pos = 2 then
               a2b_base64 3 (v mod 4) 0 (bin @ [char_of (leftchar * 16 + v div 4)]) cs
             else a2b_base64 0 0 0 (bin @ [char_of (leftchar * 64 + v)]) cs)))"

definition is_ascii :: "string \<Rightarrow> bool" where
  "is_ascii s = list_all (\<lambda>c. (of_char c :: nat) < 128) s"

definition b64decode :: "string \<Rightarrow> exn + string" where
  "b64decode s =
     (if is_ascii s then a2b_base64 0 0 0 [] s
      else Inl (ValueError ''string argument should contain only ASCII characters''))"

text \<open>Well-formed UTF-8 as the strict decoder accepts it: \<open>n\<close> continuation bytes are still
  due, the next one within \<open>lo\<close> and \<open>hi\<close> (which exclude overlong forms, surrogates and
  code points above U+10FFFF).\<close>

fun utf8_ok :: "nat \<Rightarrow> nat \<Rightarrow> nat \<Rightarrow> nat list \<Rightarrow> bool" where
  "utf8_ok n lo hi [] = (n = 0)"
| "utf8_ok n lo hi (b # bs) =
     (if n = 0 then
        (if b < 0x80 then utf8_ok 0 0x80 0xBF bs
         else if 0xC2 \<le> b \<and> b \<le> 0xDF then utf8_ok 1 0x80 0xBF bs
         else if b = 0xE0 then utf8_ok 2 0xA0 0xBF bs
         else if b = 0xED then utf8_ok 2 0x80 0x9F bs
         else if 0xE1 \<le> b \<and> b \<le> 0xEF then utf8_ok 2 0x80 0xBF bs
         else if b = 0xF0 then utf8_ok 3 0x90 0xBF bs
         else if b = 0xF4 then utf8_ok 3 0x80 0x8F bs
         else if 0xF1 \<le> b \<and> b \<le> 0xF3 then utf8_ok 3 0x80 0xBF bs
         else False)
      else lo \<le> b \<and> b \<le> hi \<and> utf8_ok (n - 1) 0x80 0xBF bs)"

text \<open>\<open>bytes.decode('utf-8')\<close>: the text is held as its UTF-8 bytes, so a successful
  decoding returns the bytes as they are.\<close>

definition decode_utf8 :: "string \<Rightarrow> exn + string" where
  "decode_utf8 bs =
     (if utf8_ok 0 0x80 0xBF (map of_char bs) then Inr bs else Inl (UnicodeDecodeError bs))"

subsection \<open>\<open>int()\<close> of a header value\<close>

text \<open>\<open>int(s)\<close> in base 10: white space around the literal is dropped (the ASCII white
  space and, of the characters a header value can hold, U+0085 and U+00A0), then an
  optional sign and decimal digits, single underscores allowed between digits. The limit
  on the number of digits of recent interpreters is not part of the model.\<close>

definition ascii_space :: "char \<Rightarrow> bool" where
  "ascii_space c = (let n = of_char c :: nat in (9 \<le> n \<and> n \<le> 13) \<or> n = 32)"

fun lstrip_space :: "string \<Rightarrow> string" where
  "lstrip_space [] = []"
| "lstrip_space [c] = (if ascii_space c then [] else [c])"
| "lstrip_space (c # d # cs) =
     (if ascii_space c then lstrip_space (d # cs)
      else if c = CHR 0xC2 \<and> (d = CHR 0x85 \<or> d = CHR 0xA0) then lstrip_space cs
      else c # d # cs)"

text \<open>The same from the end, on the reversed text.\<close>

fun rstrip_space_rev :: "string \<Rightarrow> string" where
  "rstrip_space_rev [] = []"
| "rstrip_space_rev [d] = (if ascii_space d then [] else [d])"
| "rstrip_space_rev (d # c # cs) =
     (if ascii_space d then rstrip_space_rev (c # cs)
      else if c = CHR 0xC2 \<and> (d = CHR 0x85 \<or> d = CHR 0xA0) then rstrip_space_rev cs
      else d # c # cs)"

definition strip_space :: "string \<Rightarrow> string" where
  "strip_space s = rev (rstrip_space_rev (rev (lstrip_space s)))"

fun int_digits :: "bool \<Rightarrow> int \<Rightarrow> string \<Rightarrow> int option" where
  "int_digits prev acc [] = (if prev then Some acc else None)"
| "int_digits prev acc (c # cs) =
     (let n = of_char c :: nat in
      if 48 \<le> n \<and> n \<le> 57 then int_digits True (acc * 10 + int (n - 48)) cs
      else if c = CHR ''_'' \<and> prev then int_digits False acc cs
      else None)"

definition int_literal :: "string \<Rightarrow> int option" where
  "int_literal t =
     (case t of
        [] \<Rightarrow> None
      | c # cs \<Rightarrow>
          if c = CHR ''-'' then map_option uminus (int_digits False 0 cs)
          else if c = CHR ''+'' then int_digits False 0 cs
          else int_digits False 0 t)"

definition py_int :: "string \<Rightarrow> exn + int" where
  "py_int s =
     (case int_literal (strip_space s) of
        None \<Rightarrow> Inl (InvalidLiteral s)
      | Some i \<Rightarrow> Inr i)"

subsection \<open>\<open>json.dumps\<close>\<close>

text \<open>The code points of a text held as UTF-8 bytes: \<open>n\<close> continuation bytes are still
  due and \<open>acc\<close> holds the bits read so far.\<close>

fun codepoints :: "nat \<Rightarrow> nat \<Rightarrow> nat list \<Rightarrow> nat list" where
  "codepoints n acc [] = []"
| "codepoints n acc (b # bs) =
     (if n = 0 then
        (if b < 0x80 then b # codepoints 0 0 bs
         else if b < 0xE0 then codepoints 1 (b mod 32) bs
         else if b < 0xF0 then codepoints 2 (b mod 16) bs
         else codepoints 3 (b mod 8) bs)
      else if n = 1 then (acc * 64 + b mod 64) # codepoints 0 0 bs
      else codepoints (n - 1) (acc * 64 + b mod 64) bs)"

definition hex4 :: "nat \<Rightarrow> string" where
  "hex4 n = map (\<lambda>d. ''0123456789abcdef'' ! d)
              [n div 4096 mod 16, n div 256 mod 16, n div 16 mod 16, n mod 16]"

text \<open>The encoder with \<open>ensure_ascii\<close> on: the quote, the backslash and everything outside
  the printable ASCII range are escaped, code points above U+FFFF as a surrogate pair.\<close>

definition json_escape :: "nat \<Rightarrow> string" where
  "json_escape cp =
     (if cp = 0x22 then [CHR 0x5C, CHR 0x22]
      else if cp = 0x5C then [CHR 0x5C, CHR 0x5C]
      else if cp = 0x0A then [CHR 0x5C, CHR ''n'']
      else if cp = 0x0D then [CHR 0x5C, CHR ''r'']
      else if cp = 0x09 then [CHR 0x5C, CHR ''t'']
      else if cp = 0x08 then [CHR 0x5C, CHR ''b'']
      else if cp = 0x0C then [CHR 0x5C, CHR ''f'']
      else if 0x20 \<le> cp \<and> cp \<le> 0x7E then [char_of cp]
      else if cp < 0x10000 then CHR 0x5C # CHR ''u'' # hex4 cp
      else CHR 0x5C # CHR ''u'' # hex4 (0xD800 + (cp - 0x10000) div 1024)
           @ CHR 0x5C # CHR ''u'' # hex4 (0xDC00 + (cp - 0x10000) mod 1024))"

definition json_string :: "string \<Rightarrow> string" where
  "json_string s =
     CHR 0x22 # concat (map json_escape (codepoints 0 0 (map of_char s))) @ [CHR 0x22]"

datatype json = JString string | JInt int | JObject "(string \<times> json) list"

text \<open>Items are separated by a comma and a space, key and value by a colon and a space
  (the default separators).\<close>

fun join_items :: "string list \<Rightarrow> string" where
  "join_items [] = []"
| "join_items [x] = x"
| "join_items (x # y # ys) = x @ '', '' @ join_items (y # ys)"

fun json_dumps :: "json \<Rightarrow> string" where
  "json_dumps (JString s) = json_string s"
| "json_dumps (JInt i) = str_int i"
| "json_dumps (JObject kvs) =
     ''{'' @ join_items (map (\<lambda>(k, v). json_string k @ '': '' @ json_dumps v) kvs) @ ''}''"

section \<open>Requests, responses and the surroundings of the handler\<close>

text \<open>The handler class defines \<open>do_GET\<close>, \<open>do_POST\<close> and \<open>do_OPTIONS\<close>; the base class
  answers every other method itself (501) and the handler is not entered.\<close>

datatype command = GET | POST | OPTIONS

text \<open>What the handler reads of itself: \<open>self.command\<close>, \<open>self.path\<close>, \<open>self.headers\<close>
  and the bytes waiting on \<open>self.rfile\<close>.\<close>

record request =
  command :: command
  path :: string
  headers :: header_list
  rfile :: string

text \<open>The \<open>urllib.request.Request\<close> handed to \<open>urlopen\<close>.\<close>

record outbound =
  full_url :: string
  data :: "string option"
  request_headers :: header_list
  http_method :: string

text \<open>What \<open>urllib\<close> does with it, the constructor of \<open>Request\<close> and \<open>urlopen\<close> taken
  together: a response (status, header items, body), an \<open>HTTPError\<close> (code and
  \<open>str(e.reason)\<close>), a \<open>URLError\<close> (\<open>str(e.reason)\<close>) or any other exception (\<open>str(e)\<close>).
  The answer is a function of the request: one request, one attempt, one answer.\<close>

datatype upstream =
    Response int header_list string
  | HTTPError int string
  | URLError string
  | Raised string

text \<open>What the handler does not decide: the process environment (after the \<open>.env\<close> file
  has been loaded), the upstream service, the file \<open>webchat.html\<close> (\<open>None\<close> when it does
  not exist), the \<open>Server\<close> and \<open>Date\<close> values of the base class, the error page the base
  class renders for a code and a message, and the texts the interpreter gives a
  \<open>UnicodeDecodeError\<close> and the \<open>repr\<close> of a rejected literal.\<close>

record server =
  environ :: "string \<rightharpoonup> string"
  urlopen :: "outbound \<Rightarrow> upstream"
  webchat_html :: "string option"
  version_string :: string
  date_time_string :: string
  error_page :: "int \<Rightarrow> string \<Rightarrow> string"
  unicode_error_text :: "string \<Rightarrow> string"
  repr :: "string \<Rightarrow> string"

definition str_exn :: "server \<Rightarrow> exn \<Rightarrow> string" where
  "str_exn srv e =
     (case e of
        BinasciiError m \<Rightarrow> m
      | ValueError m \<Rightarrow> m
      | UnicodeDecodeError bs \<Rightarrow> unicode_error_text srv bs
      | InvalidLiteral s \<Rightarrow> ''invalid literal for int() with base 10: '' @ repr srv s)"

text \<open>The response under construction: the status code and the message given with it
  (\<open>None\<close> when the handler gives none and the base class supplies the standard phrase),
  the headers sent so far in order, and the bytes written to \<open>self.wfile\<close>.\<close>

record response =
  code :: int
  message :: "string option"
  headers_buffer :: header_list
  wfile :: string

subsection \<open>Methods of the base class\<close>

text \<open>\<open>send_response\<close> writes the status line and the \<open>Server\<close> and \<open>Date\<close> headers.\<close>

definition send_response :: "server \<Rightarrow> int \<Rightarrow> string option \<Rightarrow> response" where
  "send_response srv c m =
     \<lparr>code = c, message = m,
      headers_buffer = [(''Server'', version_string srv), (''Date'', date_time_string srv)],
      wfile = []\<rparr>"

definition send_header :: "string \<Rightarrow> string \<Rightarrow> response \<Rightarrow> response" where
  "send_header keyword v r = r\<lparr>headers_buffer := headers_buffer r @ [(keyword, v)]\<rparr>"

definition end_headers :: "response \<Rightarrow> response" where
  "end_headers r = r"

definition wfile_write :: "string \<Rightarrow> response \<Rightarrow> response" where
  "wfile_write d r = r\<lparr>wfile := wfile r @ d\<rparr>"

text \<open>\<open>send_error(code, message)\<close>: the status line with the message, \<open>Connection: close\<close>,
  and, unless the code forbids a body, the error page with its type and length.\<close>

definition send_error :: "server \<Rightarrow> int \<Rightarrow> string \<Rightarrow> response" where
  "send_error srv c m =
     (let r = send_header ''Connection'' ''close'' (send_response srv c (Some m)) in
      if 200 \<le> c \<and> c \<noteq> 204 \<and> c \<noteq> 205 \<and> c \<noteq> 304 then
        (let body = error_page srv c m in
         wfile_write body
           (end_headers
             (send_header ''Content-Length'' (str_nat (length body))
               (send_header ''Content-Type'' ''text/html;charset=utf-8'' r))))
      else end_headers r)"

section \<open>The handler\<close>

definition send_cors_headers :: "response \<Rightarrow> response" where
  "send_cors_headers r =
     send_header ''Access-Control-Allow-Headers''
         ''Content-Type, Authorization, X-API-Key, X-OpenWebUI-URL''
       (send_header ''Access-Control-Allow-Methods'' ''GET, POST, OPTIONS''
         (send_header ''Access-Control-Allow-Origin'' ''*'' r))"

text \<open>The result of handling a request: the response, and the request that was handed
  to \<open>urllib\<close> when one was.\<close>

record outcome =
  reply :: response
  forwarded :: "outbound option"

definition no_call :: "response \<Rightarrow> outcome" where
  "no_call r = \<lparr>reply = r, forwarded = None\<rparr>"

definition do_OPTIONS :: "server \<Rightarrow> request \<Rightarrow> outcome" where
  "do_OPTIONS srv self = no_call (end_headers (send_cors_headers (send_response srv 200 None)))"

definition serve_webchat_file :: "server \<Rightarrow> response" where
  "serve_webchat_file srv =
     (case webchat_html srv of
        Some content \<Rightarrow>
          wfile_write content
            (end_headers
              (send_cors_headers
                (send_header ''Content-type'' ''text/html'' (send_response srv 200 None))))
      | None \<Rightarrow> send_error srv 404 ''webchat.html not found'')"

subsection \<open>handle\_proxy\_request, by its stages\<close>

text \<open>Line 111: \<open>base64.b64decode(encoded_api_key).decode('utf-8')\<close>.\<close>

definition decode_api_key :: "string \<Rightarrow> exn + string" where
  "decode_api_key encoded_api_key =
     (case b64decode encoded_api_key of
        Inl e \<Rightarrow> Inl e
      | Inr bs \<Rightarrow> decode_utf8 bs)"

text \<open>Lines 97 to 114: the key of the environment when it is set and not empty, else the
  decoded \<open>X-API-Key\<close> header; \<open>Inl\<close> holds the arguments of the \<open>send_error\<close> call that
  ends the request.\<close>

definition resolve_api_key :: "server \<Rightarrow> request \<Rightarrow> (int \<times> string) + string" where
  "resolve_api_key srv self =
     (let server_api_key = environ srv ''OPENWEBUI_API_KEY'' in
      if server_api_key \<noteq> None \<and> server_api_key \<noteq> Some [] then Inr (the server_api_key)
      else
        (let encoded_api_key = headers_get (headers self) ''X-API-Key'' in
         if encoded_api_key = None \<or> encoded_api_key = Some [] then
           Inl (400, ''Missing X-API-Key header or server-side OPENWEBUI_API_KEY environment variable'')
         else
           (case decode_api_key (the encoded_api_key) of
              Inl e \<Rightarrow> Inl (400, ''Invalid API key encoding: '' @ str_exn srv e)
            | Inr api_key \<Rightarrow> Inr api_key)))"

text \<open>Lines 95 and 116 to 123: the header \<open>X-OpenWebUI-URL\<close> when it is there and not
  empty, else \<open>DEFAULT_OPENWEBUI_URL\<close> when it is set and not empty.\<close>

definition resolve_openwebui_url :: "server \<Rightarrow> request \<Rightarrow> (int \<times> string) + string" where
  "resolve_openwebui_url srv self =
     (let openwebui_url = headers_get (headers self) ''X-OpenWebUI-URL'' in
      if openwebui_url \<noteq> None \<and> openwebui_url \<noteq> Some [] then Inr (the openwebui_url)
      else
        (let default_openwebui_url = environ srv ''DEFAULT_OPENWEBUI_URL'' in
         if default_openwebui_url \<noteq> None \<and> default_openwebui_url \<noteq> Some []
         then Inr (the default_openwebui_url)
         else Inl (400, ''Missing X-OpenWebUI-URL header or DEFAULT_OPENWEBUI_URL environment variable'')))"

text \<open>Lines 126 to 130: the headers of the outbound request.\<close>

definition target_headers :: "string \<Rightarrow> header_list" where
  "target_headers api_key =
     [(''Authorization'', ''Bearer '' @ api_key),
      (''Content-Type'', ''application/json''),
      (''User-Agent'', ''Mozilla/5.0 (Windows NT 10.0; Win64; x64) AppleWebKit/537.36 (KHTML, like Gecko) Chrome/91.0.4472.124 Safari/537.36'')]"

text \<open>Lines 143 to 161: the outbound request. For POST the body is read first, and
  \<open>int()\<close> of the \<open>Content-Length\<close> header may raise.\<close>

definition build_request :: "request \<Rightarrow> header_list \<Rightarrow> string \<Rightarrow> exn + outbound" where
  "build_request self hs url =
     (if command self = POST then
        (case (case headers_get (headers self) ''Content-Length'' of
                 None \<Rightarrow> Inr 0
               | Some v \<Rightarrow> py_int v) of
           Inl e \<Rightarrow> Inl e
         | Inr content_length \<Rightarrow>
            (let post_data = (if content_length > 0 then take (nat content_length) (rfile self) else [])
             in Inr \<lparr>full_url = url, data = Some post_data, request_headers = hs, http_method = ''POST''\<rparr>))
      else Inr \<lparr>full_url = url, data = None, request_headers = hs, http_method = ''GET''\<rparr>)"

text \<open>Line 177: the headers that are not copied.\<close>

definition hop_by_hop :: "string \<Rightarrow> bool" where
  "hop_by_hop header = (lower header = ''connection'' \<or> lower header = ''transfer-encoding'')"

text \<open>Lines 194 to 200: the error object of the \<open>HTTPError\<close> branch.\<close>

definition error_response :: "int \<Rightarrow> string \<Rightarrow> json" where
  "error_response c reason =
     JObject [(''error'',
       JObject [(''message'', JString (''Request failed: '' @ reason)),
                (''type'', JString ''http_error''),
                (''code'', JInt c)])]"

text \<open>Lines 166 to 212: what is sent back for each answer of \<open>urlopen\<close>.\<close>

definition relay :: "server \<Rightarrow> upstream \<Rightarrow> response" where
  "relay srv up =
     (case up of
        Response response_status response_headers response_data \<Rightarrow>
          wfile_write response_data
            (end_headers
              (send_cors_headers
                (foldl (\<lambda>r (header, v). if \<not> hop_by_hop header then send_header header v r else r)
                   (send_response srv response_status None) response_headers)))
      | HTTPError c reason \<Rightarrow>
          wfile_write (json_dumps (error_response c reason))
            (end_headers
              (send_cors_headers
                (send_header ''Content-Type'' ''application/json'' (send_response srv c None))))
      | URLError reason \<Rightarrow> send_error srv 500 (''URL Error: '' @ reason)
      | Raised m \<Rightarrow> send_error srv 500 (''Request failed with error: '' @ m))"

definition handle_proxy_request :: "server \<Rightarrow> request \<Rightarrow> outcome" where
  "handle_proxy_request srv self =
     (if startswith (path self) ''/proxy/'' then
        (let api_endpoint = drop (length ''/proxy/'') (path self) in
         case resolve_api_key srv self of
           Inl (c, m) \<Rightarrow> no_call (send_error srv c m)
         | Inr api_key \<Rightarrow>
            (case resolve_openwebui_url srv self of
               Inl (c, m) \<Rightarrow> no_call (send_error srv c m)
             | Inr openwebui_url \<Rightarrow>
                (case build_request self (target_headers api_key)
                        (target_url openwebui_url api_endpoint) of
                   Inl e \<Rightarrow>
                     no_call (send_error srv 500 (''Request failed with error: '' @ str_exn srv e))
                 | Inr req \<Rightarrow> \<lparr>reply = relay srv (urlopen srv req), forwarded = Some req\<rparr>)))
      else no_call (send_error srv 400 ''Invalid proxy path''))"

subsection \<open>Dispatch\<close>

definition not_found :: "server \<Rightarrow> outcome" where
  "not_found srv = no_call (wfile_write ''Not Found'' (end_headers (send_response srv 404 None)))"

definition do_GET :: "server \<Rightarrow> request \<Rightarrow> outcome" where
  "do_GET srv self =
     (if path self = ''/'' \<or> path self = ''/webchat.html'' then no_call (serve_webchat_file srv)
      else if startswith (path self) ''/proxy/'' then handle_proxy_request srv self
      else not_found srv)"

definition do_POST :: "server \<Rightarrow> request \<Rightarrow> outcome" where
  "do_POST srv self =
     (if startswith (path self) ''/proxy/'' then handle_proxy_request srv self
      else not_found srv)"

text \<open>The base class calls the method named after the command.\<close>

definition handle :: "server \<Rightarrow> request \<Rightarrow> outcome" where
  "handle srv self =
     (case command self of
        GET \<Rightarrow> do_GET srv self
      | POST \<Rightarrow> do_POST srv self
      | OPTIONS \<Rightarrow> do_OPTIONS srv self)"

section \<open>The vocabulary of the specification\<close>

text \<open>Base64 as RFC 4648 defines it: a multiple of four characters, all of the alphabet,
  closed by at most two pad characters.\<close>

definition valid_base64 :: "string \<Rightarrow> bool" where
  "valid_base64 s =
     (let body = takeWhile (\<lambda>c. c \<noteq> CHR ''='') s;
          pad = dropWhile (\<lambda>c. c \<noteq> CHR ''='') s
      in length s mod 4 = 0 \<and> list_all (\<lambda>c. b64_value c \<noteq> None) body
         \<and> (pad = [] \<or> pad = ''='' \<or> pad = ''==''))"

text \<open>The error object as the specification gives it: the message is the reason phrase.\<close>

definition spec_error_response :: "int \<Rightarrow> string \<Rightarrow> json" where
  "spec_error_response c reason =
     JObject [(''error'',
       JObject [(''message'', JString reason),
                (''type'', JString ''http_error''),
                (''code'', JInt c)])]"

text \<open>A response carries a cross-origin header when one of its header names starts with
  \<open>access-control-\<close>; it carries the permissive ones when the three headers of
  \<open>send_cors_headers\<close> are among its headers.\<close>

definition has_cors :: "response \<Rightarrow> bool" where
  "has_cors r = list_ex (\<lambda>kv. startswith (lower (fst kv)) ''access-control-'') (headers_buffer r)"

definition cors_sent :: "response \<Rightarrow> bool" where
  "cors_sent r =
     ((''Access-Control-Allow-Origin'', ''*'') \<in> set (headers_buffer r)
      \<and> (''Access-Control-Allow-Methods'', ''GET, POST, OPTIONS'') \<in> set (headers_buffer r)
      \<and> (''Access-Control-Allow-Headers'',
            ''Content-Type, Authorization, X-API-Key, X-OpenWebUI-URL'') \<in> set (headers_buffer r))"

text \<open>Two header lists that differ at most in their \<open>X-API-Key\<close> entries are equal once
  the entries of that name are removed.\<close>

definition without_header :: "string \<Rightarrow> header_list \<Rightarrow> header_list" where
  "without_header name hs = filter (\<lambda>kv. lower (fst kv) \<noteq> lower name) hs"

section \<open>Concrete surroundings and requests\<close>

definition example_server :: "upstream \<Rightarrow> server" where
  "example_server up =
     \<lparr>environ = Map.empty,
      urlopen = (\<lambda>_. up),
      webchat_html = Some ''<html></html>'',
      version_string = ''BaseHTTP/0.6 Python/3.11.10'',
      date_time_string = ''Tue, 03 Nov 2026 12:00:00 GMT'',
      error_page = (\<lambda>c m. ''<p>Error code: '' @ str_int c @ ''</p><p>Message: '' @ m @ ''.</p>''),
      unicode_error_text = (\<lambda>bs. ''invalid utf-8''),
      repr = (\<lambda>s. [CHR 0x27] @ s @ [CHR 0x27])\<rparr>"

definition keyed_server :: "upstream \<Rightarrow> server" where
  "keyed_server up = (example_server up)\<lparr>environ := [''OPENWEBUI_API_KEY'' \<mapsto> ''sk-server'']\<rparr>"

definition example_request :: "command \<Rightarrow> string \<Rightarrow> header_list \<Rightarrow> request" where
  "example_request c p extra =
     \<lparr>command = c, path = p,
      headers = (''X-OpenWebUI-URL'', ''https://host/'') # (''Content-Length'', ''2'') # extra,
      rfile = ''{}''\<rparr>"

section \<open>Facts about the library functions\<close>

lemmas eval_char = char_of_def bit_iff_odd

lemma takeWhile_eq_replicate:
  "takeWhile (\<lambda>x. x = c) xs = replicate (length (takeWhile (\<lambda>x. x = c) xs)) c"
  by (induction xs) auto

lemma startswith_single: "startswith s [c] \<longleftrightarrow> (s \<noteq> [] \<and> hd s = c)"
  by (cases s) (auto simp: startswith_def)

lemma endswith_single: "endswith s [c] \<longleftrightarrow> (s \<noteq> [] \<and> last s = c)"
proof (cases s rule: rev_cases)
  case Nil
  then show ?thesis by (simp add: endswith_def)
next
  case (snoc ys y)
  then show ?thesis by (auto simp: endswith_def)
qed

lemma lstrip_decompose: "\<exists>n. s = replicate n c @ lstrip s c"
proof -
  have "s = takeWhile (\<lambda>x. x = c) s @ dropWhile (\<lambda>x. x = c) s" by simp
  then have "s = replicate (length (takeWhile (\<lambda>x. x = c) s)) c @ lstrip s c"
    using takeWhile_eq_replicate [of c s] by (simp add: lstrip_def)
  then show ?thesis ..
qed

lemma lstrip_no_lead: "\<not> startswith (lstrip s c) [c]"
  unfolding startswith_single lstrip_def
  using hd_dropWhile [of "\<lambda>x. x = c" s] by blast

lemma rstrip_decompose: "\<exists>m. b = rstrip b c @ replicate m c"
proof -
  obtain n where "rev b = replicate n c @ lstrip (rev b) c"
    using lstrip_decompose [of "rev b" c] by blast
  then have "rev (rev b) = rev (replicate n c @ lstrip (rev b) c)" by simp
  then have "b = rstrip b c @ replicate n c"
    by (simp add: rstrip_def lstrip_def)
  then show ?thesis ..
qed

lemma rstrip_no_trail: "\<not> endswith (rstrip b c) [c]"
proof (cases "dropWhile (\<lambda>x. x = c) (rev b)")
  case Nil
  then show ?thesis by (simp add: endswith_single rstrip_def)
next
  case (Cons y ys)
  then have "y \<noteq> c" using hd_dropWhile [of "\<lambda>x. x = c" "rev b"] by simp
  with Cons show ?thesis by (simp add: endswith_single rstrip_def)
qed

lemma lstrip_id: "\<not> startswith s [c] \<Longrightarrow> lstrip s c = s"
  by (cases s) (auto simp: startswith_def lstrip_def)

lemma rstrip_id: "\<not> endswith b [c] \<Longrightarrow> rstrip b c = b"
  unfolding endswith_single rstrip_def
  by (cases b rule: rev_cases) auto

lemma lstrip_trim_one:
  "\<not> startswith (trim_one_leading s) ''/'' \<Longrightarrow> lstrip s CHR ''/'' = trim_one_leading s"
proof (cases "startswith s ''/''")
  case False
  then show ?thesis by (simp add: trim_one_leading_def lstrip_id)
next
  case True
  assume a: "\<not> startswith (trim_one_leading s) ''/''"
  from True obtain t where s: "s = CHR ''/'' # t" by (cases s) (auto simp: startswith_def)
  with True a have "\<not> startswith t ''/''" by (simp add: trim_one_leading_def)
  then have "lstrip t CHR ''/'' = t" by (rule lstrip_id)
  with s True show ?thesis by (simp add: trim_one_leading_def lstrip_def)
qed

lemma rstrip_trim_one:
  "\<not> endswith (trim_one_trailing b) ''/'' \<Longrightarrow> rstrip b CHR ''/'' = trim_one_trailing b"
proof (cases "endswith b ''/''")
  case False
  then show ?thesis by (simp add: trim_one_trailing_def rstrip_id)
next
  case True
  assume a: "\<not> endswith (trim_one_trailing b) ''/''"
  from True obtain t where b: "b = t @ ''/''"
    unfolding endswith_single by (cases b rule: rev_cases) auto
  with True a have "\<not> endswith t ''/''" by (simp add: trim_one_trailing_def)
  then have "rstrip t CHR ''/'' = t" by (rule rstrip_id)
  with b True show ?thesis by (simp add: trim_one_trailing_def rstrip_def)
qed

section \<open>URL construction\<close>

text \<open>
  C1, as the specification states it: the target URL is the base with exactly one trailing
  slash trimmed and the sub-path with exactly one leading slash trimmed. The code calls
  \<open>rstrip('/')\<close> and \<open>lstrip('/')\<close>, which remove every such slash: for the base
  \<open>https://host//\<close> and the sub-path \<open>models\<close> the two constructions differ.
\<close>

theorem target_url_one_slash_counterexample:
  "target_url ''https://host//'' ''models'' \<noteq> spec_target_url ''https://host//'' ''models''"
  by (simp add: target_url_def spec_target_url_def trim_one_trailing_def trim_one_leading_def
        startswith_def endswith_def rstrip_def lstrip_def)

text \<open>
  C1, amended: the target URL is the base without any of its trailing slashes, then
  \<open>/api/v1/\<close> when the sub-path ends with \<open>chat/completions\<close> and \<open>/\<close> otherwise, then the
  sub-path without any of its leading slashes. The trimmed base differs from the base by
  trailing slashes only and does not end with one; the trimmed sub-path differs from the
  sub-path by leading slashes only and does not start with one. When trimming one slash
  on each side leaves none to trim, the result is the one the specification describes.
  The base \<open>https://host/\<close> with the sub-path \<open>chat/completions\<close> gives
  \<open>https://host/api/v1/chat/completions\<close>, the base \<open>https://host\<close> with \<open>models\<close> gives
  \<open>https://host/models\<close>.
\<close>

theorem target_url_strips_every_slash:
  "target_url B S =
     rstrip B CHR ''/'' @ (if endswith S ''chat/completions'' then ''/api/v1/'' else ''/'')
       @ lstrip S CHR ''/''
   \<and> (\<exists>m. B = rstrip B CHR ''/'' @ replicate m CHR ''/'')
   \<and> \<not> endswith (rstrip B CHR ''/'') ''/''
   \<and> (\<exists>n. S = replicate n CHR ''/'' @ lstrip S CHR ''/'')
   \<and> \<not> startswith (lstrip S CHR ''/'') ''/''
   \<and> (\<not> endswith (trim_one_trailing B) ''/'' \<and> \<not> startswith (trim_one_leading S) ''/''
        \<longrightarrow> target_url B S = spec_target_url B S)
   \<and> target_url ''https://host/'' ''chat/completions'' = ''https://host/api/v1/chat/completions''
   \<and> target_url ''https://host'' ''models'' = ''https://host/models''"
proof -
  have 1: "target_url B S =
     rstrip B CHR ''/'' @ (if endswith S ''chat/completions'' then ''/api/v1/'' else ''/'')
       @ lstrip S CHR ''/''"
    by (simp add: target_url_def)
  have 2: "\<not> endswith (trim_one_trailing B) ''/'' \<and> \<not> startswith (trim_one_leading S) ''/''
        \<longrightarrow> target_url B S = spec_target_url B S"
    by (simp add: target_url_def spec_target_url_def lstrip_trim_one rstrip_trim_one)
  have 3: "target_url ''https://host/'' ''chat/completions'' = ''https://host/api/v1/chat/completions''"
    by (simp add: target_url_def endswith_def rstrip_def lstrip_def)
  have 4: "target_url ''https://host'' ''models'' = ''https://host/models''"
    by (simp add: target_url_def endswith_def rstrip_def lstrip_def)
  from 1 2 3 4 rstrip_decompose [of B "CHR ''/''"] rstrip_no_trail [of B "CHR ''/''"]
    lstrip_decompose [of S "CHR ''/''"] lstrip_no_lead [of S "CHR ''/''"]
  show ?thesis by blast
qed

theorem target_url_strips_every_slash_witness:
  "\<not> endswith (trim_one_trailing ''https://host/'') ''/''
   \<and> \<not> startswith (trim_one_leading ''/v1/chat/completions'') ''/''
   \<and> target_url ''https://host/'' ''/v1/chat/completions'' = ''https://host/api/v1/v1/chat/completions''
   \<and> spec_target_url ''https://host/'' ''/v1/chat/completions'' = ''https://host/api/v1/v1/chat/completions''"
  using target_url_strips_every_slash [of "''https://host/''" "''/v1/chat/completions''"]
  by (simp add: spec_target_url_def trim_one_trailing_def trim_one_leading_def startswith_def
        endswith_def rstrip_def lstrip_def)

section \<open>Evaluating the model\<close>

lemmas library_defs = b64decode_def is_ascii_def b64_value_def decode_utf8_def decode_api_key_def
  lower_def lower_char_def headers_get_def startswith_def endswith_def rstrip_def lstrip_def
  py_int_def strip_space_def int_literal_def ascii_space_def str_int_def str_nat.simps
  json_string_def json_escape_def hex4_def str_exn_def

lemmas handler_defs = handle_def do_GET_def do_POST_def do_OPTIONS_def not_found_def
  handle_proxy_request_def resolve_api_key_def resolve_openwebui_url_def target_headers_def
  target_url_def build_request_def relay_def hop_by_hop_def error_response_def
  serve_webchat_file_def send_cors_headers_def send_error_def send_response_def send_header_def
  end_headers_def wfile_write_def no_call_def

lemmas example_defs = example_server_def keyed_server_def example_request_def

section \<open>Responses of the base class\<close>

lemma send_error_fields:
  "code (send_error srv c m) = c" "message (send_error srv c m) = Some m"
  by (simp_all add: send_error_def Let_def send_header_def send_response_def end_headers_def
        wfile_write_def)

lemma send_error_headers:
  "headers_buffer (send_error srv c m) =
     [(''Server'', version_string srv), (''Date'', date_time_string srv), (''Connection'', ''close'')]
     @ (if 200 \<le> c \<and> c \<noteq> 204 \<and> c \<noteq> 205 \<and> c \<noteq> 304
        then [(''Content-Type'', ''text/html;charset=utf-8''),
              (''Content-Length'', str_nat (length (error_page srv c m)))]
        else [])"
  by (simp add: send_error_def Let_def send_header_def send_response_def end_headers_def
        wfile_write_def)

lemma no_call_fields: "reply (no_call r) = r" "forwarded (no_call r) = None"
  by (simp_all add: no_call_def)

section \<open>Missing credentials\<close>

lemma no_server_key:
  assumes "environ srv ''OPENWEBUI_API_KEY'' = None \<or> environ srv ''OPENWEBUI_API_KEY'' = Some []"
  shows "resolve_api_key srv self =
     (let encoded_api_key = headers_get (headers self) ''X-API-Key'' in
         if encoded_api_key = None \<or> encoded_api_key = Some [] then
           Inl (400, ''Missing X-API-Key header or server-side OPENWEBUI_API_KEY environment variable'')
         else
           (case decode_api_key (the encoded_api_key) of
              Inl e \<Rightarrow> Inl (400, ''Invalid API key encoding: '' @ str_exn srv e)
            | Inr api_key \<Rightarrow> Inr api_key))"
  using assms by (auto simp: resolve_api_key_def Let_def)

lemma rejected_by_key:
  assumes "startswith (path self) ''/proxy/''" "resolve_api_key srv self = Inl (c, m)"
  shows "handle_proxy_request srv self = no_call (send_error srv c m)"
  using assms by (simp add: handle_proxy_request_def)

text \<open>
  C5: a proxy request handled with no server-wide token (the variable unset or empty) and
  no \<open>X-API-Key\<close> header is answered with status 400 and a message that names the
  \<open>X-API-Key\<close> header and the \<open>OPENWEBUI_API_KEY\<close> variable, and nothing is sent upstream.
\<close>

theorem missing_credentials_rejected:
  assumes "startswith (path self) ''/proxy/''"
    and "environ srv ''OPENWEBUI_API_KEY'' = None \<or> environ srv ''OPENWEBUI_API_KEY'' = Some []"
    and "headers_get (headers self) ''X-API-Key'' = None"
  shows "code (reply (handle_proxy_request srv self)) = 400
    \<and> message (reply (handle_proxy_request srv self)) =
        Some ''Missing X-API-Key header or server-side OPENWEBUI_API_KEY environment variable''
    \<and> forwarded (handle_proxy_request srv self) = None"
proof -
  have "resolve_api_key srv self =
      Inl (400, ''Missing X-API-Key header or server-side OPENWEBUI_API_KEY environment variable'')"
    using assms(2,3) by (simp add: no_server_key)
  with assms(1) show ?thesis
    by (simp add: rejected_by_key no_call_fields send_error_fields)
qed

theorem missing_credentials_rejected_witness:
  "code (reply (handle_proxy_request (example_server (Response 200 [] ''ok''))
           (example_request GET ''/proxy/models'' []))) = 400
   \<and> forwarded (handle_proxy_request (example_server (Response 200 [] ''ok''))
           (example_request GET ''/proxy/models'' [])) = None"
  using missing_credentials_rejected [of "example_request GET ''/proxy/models'' []"
      "example_server (Response 200 [] ''ok'')"]
  by (simp add: example_defs library_defs eval_char)

section \<open>Credentials that do not decode\<close>

lemma decode_api_key_empty: "decode_api_key [] = Inr []"
  by (simp add: decode_api_key_def b64decode_def is_ascii_def decode_utf8_def)

lemma non_ascii_key_undecodable:
  "\<not> is_ascii v \<Longrightarrow>
     decode_api_key v = Inl (ValueError ''string argument should contain only ASCII characters'')"
  by (simp add: decode_api_key_def b64decode_def)

lemma undecodable_examples:
  "decode_api_key ''abc'' = Inl (BinasciiError ''Incorrect padding'')"
  "decode_api_key ''gA=='' = Inl (UnicodeDecodeError [CHR 0x80])"
  "decode_api_key ''aGk='' = Inr ''hi''"
  by (simp_all add: library_defs eval_char)

text \<open>
  C4, as the specification states it: with no server-wide token, an \<open>X-API-Key\<close> value
  that is not valid base64 is answered with 400 and no outbound request is made. The
  decoder of the code does not validate: it skips every character outside the alphabet.
  The value \<open>aG!k=\<close> is not base64, decodes to \<open>hi\<close>, and the request goes upstream with
  that token.
\<close>

theorem lenient_base64_counterexample:
  "\<not> valid_base64 ''aG!k=''
   \<and> code (reply (handle_proxy_request (example_server (Response 200 [] ''ok''))
           (example_request GET ''/proxy/models'' [(''X-API-Key'', ''aG!k='')]))) = 200
   \<and> forwarded (handle_proxy_request (example_server (Response 200 [] ''ok''))
           (example_request GET ''/proxy/models'' [(''X-API-Key'', ''aG!k='')])) =
       Some \<lparr>full_url = ''https://host/models'', data = None,
             request_headers = target_headers ''hi'', http_method = ''GET''\<rparr>"
  by (simp add: valid_base64_def example_defs library_defs handler_defs eval_char)

text \<open>
  C4, amended: with no server-wide token, an \<open>X-API-Key\<close> value that
  \<open>base64.b64decode\<close> rejects (a character outside ASCII, or data characters that do not
  fill their last group once the characters outside the alphabet are skipped), or whose
  decoded bytes are not UTF-8, is answered with status 400 and the message
  \<open>Invalid API key encoding:\<close> followed by the text of the exception, and nothing is sent
  upstream.
\<close>

theorem undecodable_key_rejected:
  assumes "startswith (path self) ''/proxy/''"
    and "environ srv ''OPENWEBUI_API_KEY'' = None \<or> environ srv ''OPENWEBUI_API_KEY'' = Some []"
    and "headers_get (headers self) ''X-API-Key'' = Some v"
    and "decode_api_key v = Inl e"
  shows "code (reply (handle_proxy_request srv self)) = 400
    \<and> message (reply (handle_proxy_request srv self)) =
        Some (''Invalid API key encoding: '' @ str_exn srv e)
    \<and> forwarded (handle_proxy_request srv self) = None"
proof -
  from assms(4) have "v \<noteq> []" using decode_api_key_empty by auto
  with assms(2,3,4) have "resolve_api_key srv self =
      Inl (400, ''Invalid API key encoding: '' @ str_exn srv e)"
    by (simp add: no_server_key)
  with assms(1) show ?thesis
    by (simp add: rejected_by_key no_call_fields send_error_fields)
qed

theorem undecodable_key_rejected_witness:
  "decode_api_key ''abc'' = Inl (BinasciiError ''Incorrect padding'')
   \<and> code (reply (handle_proxy_request (example_server (Response 200 [] ''ok''))
           (example_request GET ''/proxy/models'' [(''X-API-Key'', ''abc'')]))) = 400
   \<and> message (reply (handle_proxy_request (example_server (Response 200 [] ''ok''))
           (example_request GET ''/proxy/models'' [(''X-API-Key'', ''abc'')]))) =
        Some ''Invalid API key encoding: Incorrect padding''
   \<and> forwarded (handle_proxy_request (example_server (Response 200 [] ''ok''))
           (example_request GET ''/proxy/models'' [(''X-API-Key'', ''abc'')])) = None"
  using undecodable_key_rejected [of "example_request GET ''/proxy/models'' [(''X-API-Key'', ''abc'')]"
      "example_server (Response 200 [] ''ok'')" "''abc''" "BinasciiError ''Incorrect padding''"]
  by (simp add: example_defs library_defs eval_char)

section \<open>Requests that reach the upstream service\<close>

lemma build_request_fields:
  assumes "build_request self hs url = Inr req"
  shows "request_headers req = hs" "full_url req = url"
  using assms by (auto simp: build_request_def Let_def split: if_splits sum.splits option.splits)

lemma forwarded_request:
  assumes "forwarded (handle_proxy_request srv self) = Some req"
  shows "\<exists>api_key openwebui_url.
           startswith (path self) ''/proxy/''
         \<and> resolve_api_key srv self = Inr api_key
         \<and> resolve_openwebui_url srv self = Inr openwebui_url
         \<and> build_request self (target_headers api_key)
               (target_url openwebui_url (drop (length ''/proxy/'') (path self))) = Inr req
         \<and> reply (handle_proxy_request srv self) = relay srv (urlopen srv req)"
proof (cases "startswith (path self) ''/proxy/''")
  case False
  with assms show ?thesis by (simp add: handle_proxy_request_def no_call_fields)
next
  case p: True
  show ?thesis
  proof (cases "resolve_api_key srv self")
    case (Inl cm)
    with assms p show ?thesis
      by (cases cm) (simp add: handle_proxy_request_def no_call_fields)
  next
    case k: (Inr api_key)
    show ?thesis
    proof (cases "resolve_openwebui_url srv self")
      case (Inl cm)
      with assms p k show ?thesis
        by (cases cm) (simp add: handle_proxy_request_def no_call_fields)
    next
      case u: (Inr openwebui_url)
      show ?thesis
      proof (cases "build_request self (target_headers api_key)
               (target_url openwebui_url (drop (length ''/proxy/'') (path self)))")
        case (Inl e)
        with assms p k u show ?thesis
          by (simp add: handle_proxy_request_def no_call_fields del: length_Cons list.size)
      next
        case (Inr r)
        with assms p k u show ?thesis
          by (simp add: handle_proxy_request_def del: length_Cons list.size)
      qed
    qed
  qed
qed

text \<open>
  C7: the request that reaches \<open>urlopen\<close> carries exactly three headers, \<open>Authorization\<close>
  with \<open>Bearer\<close> and the resolved token, \<open>Content-Type: application/json\<close> and the fixed
  \<open>User-Agent\<close>; the list is built from the token alone, so no header of the incoming
  request is passed on.
\<close>

theorem outbound_headers_fixed:
  assumes "forwarded (handle_proxy_request srv self) = Some req"
  shows "\<exists>api_key. resolve_api_key srv self = Inr api_key
    \<and> request_headers req =
        [(''Authorization'', ''Bearer '' @ api_key),
         (''Content-Type'', ''application/json''),
         (''User-Agent'', ''Mozilla/5.0 (Windows NT 10.0; Win64; x64) AppleWebKit/537.36 (KHTML, like Gecko) Chrome/91.0.4472.124 Safari/537.36'')]"
proof -
  from forwarded_request [OF assms] obtain api_key openwebui_url where
    k: "resolve_api_key srv self = Inr api_key" and
    b: "build_request self (target_headers api_key)
          (target_url openwebui_url (drop (length ''/proxy/'') (path self))) = Inr req"
    by blast
  from build_request_fields(1) [OF b] have "request_headers req = target_headers api_key" .
  with k show ?thesis by (simp add: target_headers_def)
qed

theorem outbound_headers_fixed_witness:
  "forwarded (handle_proxy_request (example_server (Response 200 [] ''ok''))
      (example_request POST ''/proxy/chat/completions''
         [(''X-API-Key'', ''aGk=''), (''Cookie'', ''session=1'')])) =
     Some \<lparr>full_url = ''https://host/api/v1/chat/completions'', data = Some ''{}'',
           request_headers =
             [(''Authorization'', ''Bearer hi''),
              (''Content-Type'', ''application/json''),
              (''User-Agent'', ''Mozilla/5.0 (Windows NT 10.0; Win64; x64) AppleWebKit/537.36 (KHTML, like Gecko) Chrome/91.0.4472.124 Safari/537.36'')],
           http_method = ''POST''\<rparr>
   \<and> resolve_api_key (example_server (Response 200 [] ''ok''))
      (example_request POST ''/proxy/chat/completions''
         [(''X-API-Key'', ''aGk=''), (''Cookie'', ''session=1'')]) = Inr ''hi''"
proof -
  have f: "forwarded (handle_proxy_request (example_server (Response 200 [] ''ok''))
      (example_request POST ''/proxy/chat/completions''
         [(''X-API-Key'', ''aGk=''), (''Cookie'', ''session=1'')])) =
     Some \<lparr>full_url = ''https://host/api/v1/chat/completions'', data = Some ''{}'',
           request_headers = target_headers ''hi'', http_method = ''POST''\<rparr>"
    by (simp add: example_defs library_defs handler_defs eval_char)
  from outbound_headers_fixed [OF f] f show ?thesis
    by (auto simp: target_headers_def)
qed

section \<open>Relaying the answer of the upstream service\<close>

lemma copy_headers:
  "foldl (\<lambda>r (header, v). if \<not> hop_by_hop header then send_header header v r else r) r0 hs =
     r0\<lparr>headers_buffer := headers_buffer r0 @ filter (\<lambda>(header, v). \<not> hop_by_hop header) hs\<rparr>"
proof (induction hs arbitrary: r0)
  case Nil
  show ?case by simp
next
  case (Cons h hs)
  show ?case by (cases h) (simp add: Cons.IH send_header_def)
qed

lemma relay_response:
  "relay srv (Response st hs body) =
     \<lparr>code = st, message = None,
      headers_buffer =
        [(''Server'', version_string srv), (''Date'', date_time_string srv)]
        @ filter (\<lambda>(header, v). \<not> hop_by_hop header) hs
        @ [(''Access-Control-Allow-Origin'', ''*''),
           (''Access-Control-Allow-Methods'', ''GET, POST, OPTIONS''),
           (''Access-Control-Allow-Headers'',
              ''Content-Type, Authorization, X-API-Key, X-OpenWebUI-URL'')],
      wfile = body\<rparr>"
  by (simp add: relay_def copy_headers send_cors_headers_def send_header_def send_response_def
        end_headers_def wfile_write_def)

lemma relay_http_error:
  "relay srv (HTTPError c reason) =
     \<lparr>code = c, message = None,
      headers_buffer =
        [(''Server'', version_string srv), (''Date'', date_time_string srv),
         (''Content-Type'', ''application/json''),
         (''Access-Control-Allow-Origin'', ''*''),
         (''Access-Control-Allow-Methods'', ''GET, POST, OPTIONS''),
         (''Access-Control-Allow-Headers'',
            ''Content-Type, Authorization, X-API-Key, X-OpenWebUI-URL'')],
      wfile = json_dumps (error_response c reason)\<rparr>"
  by (simp add: relay_def send_cors_headers_def send_header_def send_response_def
        end_headers_def wfile_write_def)

lemma fixed_names_not_hop_by_hop:
  "\<not> hop_by_hop ''Server''" "\<not> hop_by_hop ''Date''"
  "\<not> hop_by_hop ''Access-Control-Allow-Origin''"
  "\<not> hop_by_hop ''Access-Control-Allow-Methods''"
  "\<not> hop_by_hop ''Access-Control-Allow-Headers''"
  by (simp_all add: hop_by_hop_def lower_def lower_char_def eval_char)

text \<open>
  C6: when the upstream call returns a response, the reply has its status code and its
  body bytes as they are, and its headers are, after \<open>Server\<close> and \<open>Date\<close> of the base
  class, the upstream headers in order without those named \<open>Connection\<close> or
  \<open>Transfer-Encoding\<close> in any casing, then the cross-origin headers; no header of the
  reply has one of these two names.
\<close>

theorem success_relayed_verbatim:
  assumes "forwarded (handle_proxy_request srv self) = Some req"
    and "urlopen srv req = Response st hs body"
  shows "code (reply (handle_proxy_request srv self)) = st
    \<and> wfile (reply (handle_proxy_request srv self)) = body
    \<and> headers_buffer (reply (handle_proxy_request srv self)) =
        [(''Server'', version_string srv), (''Date'', date_time_string srv)]
        @ filter (\<lambda>(header, v). lower header \<noteq> ''connection''
                               \<and> lower header \<noteq> ''transfer-encoding'') hs
        @ [(''Access-Control-Allow-Origin'', ''*''),
           (''Access-Control-Allow-Methods'', ''GET, POST, OPTIONS''),
           (''Access-Control-Allow-Headers'',
              ''Content-Type, Authorization, X-API-Key, X-OpenWebUI-URL'')]
    \<and> (\<forall>(header, v) \<in> set (headers_buffer (reply (handle_proxy_request srv self))).
          lower header \<noteq> ''connection'' \<and> lower header \<noteq> ''transfer-encoding'')"
proof -
  let ?out = "reply (handle_proxy_request srv self)"
  let ?kept = "filter (\<lambda>(header, v). \<not> hop_by_hop header) hs"
  from forwarded_request [OF assms(1)] assms(2)
  have r: "?out = relay srv (Response st hs body)"
    by auto
  have f: "?kept =
           filter (\<lambda>(header, v). lower header \<noteq> ''connection''
                               \<and> lower header \<noteq> ''transfer-encoding'') hs"
    by (simp add: hop_by_hop_def)
  have hb: "headers_buffer ?out =
        [(''Server'', version_string srv), (''Date'', date_time_string srv)] @ ?kept
        @ [(''Access-Control-Allow-Origin'', ''*''),
           (''Access-Control-Allow-Methods'', ''GET, POST, OPTIONS''),
           (''Access-Control-Allow-Headers'',
              ''Content-Type, Authorization, X-API-Key, X-OpenWebUI-URL'')]"
    unfolding r relay_response by simp
  have none: "\<not> hop_by_hop (fst kv)" if "kv \<in> set (headers_buffer ?out)" for kv
  proof -
    from that hb have "fst kv = ''Server'' \<or> fst kv = ''Date'' \<or> kv \<in> set ?kept
       \<or> fst kv = ''Access-Control-Allow-Origin'' \<or> fst kv = ''Access-Control-Allow-Methods''
       \<or> fst kv = ''Access-Control-Allow-Headers''"
      by (simp only: hb set_append set_simps Un_iff insert_iff empty_iff) auto
    moreover have "\<not> hop_by_hop (fst kv)" if "kv \<in> set ?kept"
    proof -
      from that have "case kv of (header, v) \<Rightarrow> \<not> hop_by_hop header" by simp
      then show ?thesis by (simp add: case_prod_beta)
    qed
    ultimately show ?thesis
      using fixed_names_not_hop_by_hop by metis
  qed
  have 4: "\<forall>(header, v) \<in> set (headers_buffer ?out).
          lower header \<noteq> ''connection'' \<and> lower header \<noteq> ''transfer-encoding''"
  proof (clarify)
    fix header v assume "(header, v) \<in> set (headers_buffer ?out)"
    from none [OF this] show "lower header \<noteq> ''connection'' \<and> lower header \<noteq> ''transfer-encoding''"
      by (simp add: hop_by_hop_def)
  qed
  have 1: "code ?out = st" unfolding r relay_response by simp
  have 2: "wfile ?out = body" unfolding r relay_response by simp
  from 1 2 hb f 4 show ?thesis by (simp only: simp_thms)
qed

theorem success_relayed_verbatim_witness:
  "headers_buffer (reply (handle_proxy_request
      (example_server (Response 201
         [(''Content-Type'', ''application/json''), (''CONNECTION'', ''keep-alive''),
          (''transfer-Encoding'', ''chunked''), (''X-Request-Id'', ''7'')] ''[1, 2]''))
      (example_request GET ''/proxy/models'' [(''X-API-Key'', ''aGk='')]))) =
     [(''Server'', ''BaseHTTP/0.6 Python/3.11.10''), (''Date'', ''Tue, 03 Nov 2026 12:00:00 GMT''),
      (''Content-Type'', ''application/json''), (''X-Request-Id'', ''7''),
      (''Access-Control-Allow-Origin'', ''*''),
      (''Access-Control-Allow-Methods'', ''GET, POST, OPTIONS''),
      (''Access-Control-Allow-Headers'', ''Content-Type, Authorization, X-API-Key, X-OpenWebUI-URL'')]
   \<and> code (reply (handle_proxy_request
      (example_server (Response 201
         [(''Content-Type'', ''application/json''), (''CONNECTION'', ''keep-alive''),
          (''transfer-Encoding'', ''chunked''), (''X-Request-Id'', ''7'')] ''[1, 2]''))
      (example_request GET ''/proxy/models'' [(''X-API-Key'', ''aGk='')]))) = 201
   \<and> wfile (reply (handle_proxy_request
      (example_server (Response 201
         [(''Content-Type'', ''application/json''), (''CONNECTION'', ''keep-alive''),
          (''transfer-Encoding'', ''chunked''), (''X-Request-Id'', ''7'')] ''[1, 2]''))
      (example_request GET ''/proxy/models'' [(''X-API-Key'', ''aGk='')]))) = ''[1, 2]''"
proof -
  let ?hs = "[(''Content-Type'', ''application/json''), (''CONNECTION'', ''keep-alive''),
          (''transfer-Encoding'', ''chunked''), (''X-Request-Id'', ''7'')]"
  let ?up = "Response 201 ?hs ''[1, 2]''"
  let ?req = "\<lparr>full_url = ''https://host/models'', data = None,
           request_headers = target_headers ''hi'', http_method = ''GET''\<rparr>"
  let ?out = "reply (handle_proxy_request (example_server ?up)
      (example_request GET ''/proxy/models'' [(''X-API-Key'', ''aGk='')]))"
  have f: "forwarded (handle_proxy_request (example_server ?up)
      (example_request GET ''/proxy/models'' [(''X-API-Key'', ''aGk='')])) = Some ?req"
    by (simp add: example_defs library_defs handler_defs eval_char)
  have u: "urlopen (example_server ?up) ?req = ?up"
    by (simp add: example_server_def)
  note t = success_relayed_verbatim [OF f u]
  from t have c: "code ?out = 201" by (rule conjunct1)
  from t have w: "wfile ?out = ''[1, 2]''" by (elim conjE)
  from t have h: "headers_buffer ?out =
        [(''Server'', version_string (example_server ?up)),
         (''Date'', date_time_string (example_server ?up))]
        @ filter (\<lambda>(header, v). lower header \<noteq> ''connection''
                               \<and> lower header \<noteq> ''transfer-encoding'') ?hs
        @ [(''Access-Control-Allow-Origin'', ''*''),
           (''Access-Control-Allow-Methods'', ''GET, POST, OPTIONS''),
           (''Access-Control-Allow-Headers'',
              ''Content-Type, Authorization, X-API-Key, X-OpenWebUI-URL'')]"
    by (elim conjE)
  have k: "filter (\<lambda>(header, v). lower header \<noteq> ''connection''
                               \<and> lower header \<noteq> ''transfer-encoding'') ?hs =
       [(''Content-Type'', ''application/json''), (''X-Request-Id'', ''7'')]"
    by (simp add: lower_def lower_char_def eval_char)
  have s: "version_string (example_server ?up) = ''BaseHTTP/0.6 Python/3.11.10''"
    "date_time_string (example_server ?up) = ''Tue, 03 Nov 2026 12:00:00 GMT''"
    by (simp_all add: example_server_def)
  from h have "headers_buffer ?out =
     [(''Server'', ''BaseHTTP/0.6 Python/3.11.10''), (''Date'', ''Tue, 03 Nov 2026 12:00:00 GMT''),
      (''Content-Type'', ''application/json''), (''X-Request-Id'', ''7''),
      (''Access-Control-Allow-Origin'', ''*''),
      (''Access-Control-Allow-Methods'', ''GET, POST, OPTIONS''),
      (''Access-Control-Allow-Headers'', ''Content-Type, Authorization, X-API-Key, X-OpenWebUI-URL'')]"
    unfolding k s by (simp only: append.simps)
  with c w show ?thesis by (simp only: simp_thms)
qed

section \<open>Errors of the upstream service\<close>

lemma cors_sent_http_error: "cors_sent (relay srv (HTTPError c reason))"
  unfolding relay_http_error cors_sent_def by simp

text \<open>
  C3, as the specification states it: the body of the reply to an upstream HTTP error
  is the error object whose message is the upstream reason phrase. The code puts
  \<open>Request failed:\<close> before the reason phrase: for an upstream 429 with the reason
  \<open>Too Many Requests\<close> the body is not the object of the specification.
\<close>

theorem reason_phrase_counterexample:
  "code (reply (handle_proxy_request (example_server (HTTPError 429 ''Too Many Requests''))
           (example_request GET ''/proxy/models'' [(''X-API-Key'', ''aGk='')]))) = 429
   \<and> wfile (reply (handle_proxy_request (example_server (HTTPError 429 ''Too Many Requests''))
           (example_request GET ''/proxy/models'' [(''X-API-Key'', ''aGk='')])))
       \<noteq> json_dumps (spec_error_response 429 ''Too Many Requests'')"
  by (simp add: spec_error_response_def example_defs library_defs handler_defs eval_char)

text \<open>
  C3, amended: when the upstream call answers with an HTTP error, the reply carries the
  status code of that error, the header \<open>Content-Type: application/json\<close> and the
  cross-origin headers, and its body is the JSON text of the object with the one key
  \<open>error\<close>, holding \<open>message\<close> (the text \<open>Request failed:\<close>, a space and the upstream reason
  phrase), \<open>type\<close> (\<open>http_error\<close>) and \<open>code\<close> (the upstream status code).
\<close>

theorem upstream_error_relayed:
  assumes "forwarded (handle_proxy_request srv self) = Some req"
    and "urlopen srv req = HTTPError c reason"
  shows "code (reply (handle_proxy_request srv self)) = c
    \<and> wfile (reply (handle_proxy_request srv self)) =
        json_dumps (JObject [(''error'',
          JObject [(''message'', JString (''Request failed: '' @ reason)),
                   (''type'', JString ''http_error''),
                   (''code'', JInt c)])])
    \<and> (''Content-Type'', ''application/json'')
          \<in> set (headers_buffer (reply (handle_proxy_request srv self)))
    \<and> cors_sent (reply (handle_proxy_request srv self))"
proof -
  from forwarded_request [OF assms(1)] assms(2)
  have r: "reply (handle_proxy_request srv self) = relay srv (HTTPError c reason)"
    by auto
  have 1: "code (relay srv (HTTPError c reason)) = c"
    and 2: "wfile (relay srv (HTTPError c reason)) = json_dumps (error_response c reason)"
    and 3: "(''Content-Type'', ''application/json'')
              \<in> set (headers_buffer (relay srv (HTTPError c reason)))"
    unfolding relay_http_error by simp_all
  from 1 2 3 cors_sent_http_error [of srv c reason] show ?thesis
    unfolding r error_response_def by (simp only: simp_thms)
qed

theorem upstream_error_relayed_witness:
  \<open>code (reply (handle_proxy_request (example_server (HTTPError 429 ''Too Many Requests''))
           (example_request GET ''/proxy/models'' [(''X-API-Key'', ''aGk='')]))) = 429
   \<and> wfile (reply (handle_proxy_request (example_server (HTTPError 429 ''Too Many Requests''))
           (example_request GET ''/proxy/models'' [(''X-API-Key'', ''aGk='')]))) =
       ''{"error": {"message": "Request failed: Too Many Requests", "type": "http_error", "code": 429}}''\<close>
proof -
  let ?up = "HTTPError 429 ''Too Many Requests''"
  let ?req = "\<lparr>full_url = ''https://host/models'', data = None,
           request_headers = target_headers ''hi'', http_method = ''GET''\<rparr>"
  let ?out = "reply (handle_proxy_request (example_server ?up)
      (example_request GET ''/proxy/models'' [(''X-API-Key'', ''aGk='')]))"
  have f: "forwarded (handle_proxy_request (example_server ?up)
      (example_request GET ''/proxy/models'' [(''X-API-Key'', ''aGk='')])) = Some ?req"
    by (simp add: example_defs library_defs handler_defs eval_char)
  have u: "urlopen (example_server ?up) ?req = ?up"
    by (simp add: example_server_def)
  note t = upstream_error_relayed [OF f u]
  from t have c: "code ?out = 429" by (rule conjunct1)
  from t have w: "wfile ?out = json_dumps (JObject [(''error'',
          JObject [(''message'', JString (''Request failed: '' @ ''Too Many Requests'')),
                   (''type'', JString ''http_error''),
                   (''code'', JInt 429)])])" by (elim conjE)
  have j: \<open>json_dumps (JObject [(''error'',
          JObject [(''message'', JString (''Request failed: '' @ ''Too Many Requests'')),
                   (''type'', JString ''http_error''),
                   (''code'', JInt 429)])]) =
     ''{"error": {"message": "Request failed: Too Many Requests", "type": "http_error", "code": 429}}''\<close>
    by (simp add: json_string_def json_escape_def str_int_def str_nat.simps eval_char)
  from c w j show ?thesis by (simp only: simp_thms)
qed

section \<open>Paths outside the routes\<close>

text \<open>
  C8, as the specification states it: a path that is neither under \<open>/proxy/\<close> nor one of
  the two static routes is answered with 404 whatever the method. An \<open>OPTIONS\<close> request
  for \<open>/foo\<close> is answered with 200 by \<open>do_OPTIONS\<close>, which does not look at the path.
\<close>

theorem options_counterexample:
  "\<not> startswith ''/foo'' ''/proxy/'' \<and> ''/foo'' \<noteq> ''/'' \<and> ''/foo'' \<noteq> ''/webchat.html''
   \<and> code (reply (handle (example_server (Response 200 [] ''ok''))
               (example_request OPTIONS ''/foo'' []))) = 200"
  by (simp add: example_defs startswith_def handle_def do_OPTIONS_def no_call_def end_headers_def
        send_cors_headers_def send_header_def send_response_def)

text \<open>
  C8, amended: a \<open>GET\<close> or \<open>POST\<close> request whose path does not start with \<open>/proxy/\<close> and is
  neither \<open>/\<close> nor \<open>/webchat.html\<close> is answered with status 404 and the body
  \<open>Not Found\<close>, and nothing is sent upstream.
\<close>

theorem unknown_path_not_found:
  assumes "command self = GET \<or> command self = POST"
    and "\<not> startswith (path self) ''/proxy/''"
    and "path self \<noteq> ''/''" and "path self \<noteq> ''/webchat.html''"
  shows "code (reply (handle srv self)) = 404
    \<and> wfile (reply (handle srv self)) = ''Not Found''
    \<and> forwarded (handle srv self) = None"
proof -
  from assms have "handle srv self = not_found srv"
    by (auto simp: handle_def do_GET_def do_POST_def)
  then show ?thesis
    by (simp add: not_found_def no_call_def end_headers_def wfile_write_def send_response_def)
qed

theorem unknown_path_not_found_witness:
  "code (reply (handle (example_server (Response 200 [] ''ok''))
               (example_request POST ''/api/chat'' []))) = 404
   \<and> wfile (reply (handle (example_server (Response 200 [] ''ok''))
               (example_request POST ''/api/chat'' []))) = ''Not Found''
   \<and> code (reply (handle (example_server (Response 200 [] ''ok''))
               (example_request GET ''/proxy'' []))) = 404"
  using unknown_path_not_found [of "example_request POST ''/api/chat'' []"
           "example_server (Response 200 [] ''ok'')"]
        unknown_path_not_found [of "example_request GET ''/proxy'' []"
           "example_server (Response 200 [] ''ok'')"]
  by (simp add: example_request_def startswith_def)

section \<open>The server-wide token\<close>

lemma headers_get_without:
  assumes "lower name \<noteq> lower x"
  shows "headers_get (without_header x hs) name = headers_get hs name"
  using assms by (induction hs) (auto simp: headers_get_def without_header_def)

lemma other_names:
  "lower ''X-OpenWebUI-URL'' \<noteq> lower ''X-API-Key''"
  "lower ''Content-Length'' \<noteq> lower ''X-API-Key''"
  by (simp_all add: lower_def lower_char_def eval_char)

lemma server_key_wins:
  assumes "environ srv ''OPENWEBUI_API_KEY'' = Some k" and "k \<noteq> []"
  shows "resolve_api_key srv self = Inr k"
  using assms by (simp add: resolve_api_key_def)

text \<open>
  C2: while \<open>OPENWEBUI_API_KEY\<close> is set and not empty, the resolved token is that key, and
  two requests that differ at most in their \<open>X-API-Key\<close> headers (same method, path and
  body, same headers once those named \<open>X-API-Key\<close> are left out) get the same response
  and cause the same outbound request.
\<close>

theorem server_token_ignores_client_key:
  assumes "environ srv ''OPENWEBUI_API_KEY'' = Some k" and "k \<noteq> []"
    and "command r1 = command r2" and "path r1 = path r2" and "rfile r1 = rfile r2"
    and "without_header ''X-API-Key'' (headers r1) = without_header ''X-API-Key'' (headers r2)"
  shows "resolve_api_key srv r1 = Inr k \<and> resolve_api_key srv r2 = Inr k
    \<and> handle_proxy_request srv r1 = handle_proxy_request srv r2
    \<and> handle srv r1 = handle srv r2"
proof -
  have g: "headers_get (headers r1) name = headers_get (headers r2) name"
    if "lower name \<noteq> lower ''X-API-Key''" for name
    using headers_get_without [OF that, of "headers r1"]
      headers_get_without [OF that, of "headers r2"] assms(6) by simp
  have k1: "resolve_api_key srv r1 = Inr k" and k2: "resolve_api_key srv r2 = Inr k"
    using assms(1,2) by (rule server_key_wins)+
  have u: "resolve_openwebui_url srv r1 = resolve_openwebui_url srv r2"
    unfolding resolve_openwebui_url_def g [OF other_names(1)] ..
  have b: "build_request r1 hs url = build_request r2 hs url" for hs url
    unfolding build_request_def g [OF other_names(2)] assms(3) assms(5) ..
  have p: "handle_proxy_request srv r1 = handle_proxy_request srv r2"
    unfolding handle_proxy_request_def k1 k2 u b assms(4) ..
  have "handle srv r1 = handle srv r2"
    unfolding handle_def do_GET_def do_POST_def do_OPTIONS_def p assms(3) assms(4) ..
  with k1 k2 p show ?thesis by (simp only: simp_thms)
qed

theorem server_token_ignores_client_key_witness:
  "resolve_api_key (keyed_server (Response 200 [] ''ok''))
      (example_request POST ''/proxy/chat/completions'' [(''X-API-Key'', ''aGk='')]) = Inr ''sk-server''
   \<and> handle_proxy_request (keyed_server (Response 200 [] ''ok''))
      (example_request POST ''/proxy/chat/completions'' [(''X-API-Key'', ''aGk='')])
     = handle_proxy_request (keyed_server (Response 200 [] ''ok''))
      (example_request POST ''/proxy/chat/completions'' [(''x-api-key'', ''not base64'')])"
  using server_token_ignores_client_key [of "keyed_server (Response 200 [] ''ok'')" "''sk-server''"
     "example_request POST ''/proxy/chat/completions'' [(''X-API-Key'', ''aGk='')]"
     "example_request POST ''/proxy/chat/completions'' [(''x-api-key'', ''not base64'')]"]
  by (simp add: example_defs without_header_def lower_def lower_char_def eval_char)

section \<open>Cross-origin headers\<close>

lemma not_forwarded_is_error:
  assumes "forwarded (handle_proxy_request srv self) = None"
  shows "\<exists>c m. reply (handle_proxy_request srv self) = send_error srv c m"
proof (cases "startswith (path self) ''/proxy/''")
  case False
  then show ?thesis by (auto simp: handle_proxy_request_def no_call_fields)
next
  case p: True
  show ?thesis
  proof (cases "resolve_api_key srv self")
    case (Inl cm)
    with p show ?thesis
      by (cases cm) (auto simp: handle_proxy_request_def no_call_fields)
  next
    case k: (Inr api_key)
    show ?thesis
    proof (cases "resolve_openwebui_url srv self")
      case (Inl cm)
      with p k show ?thesis
        by (cases cm) (auto simp: handle_proxy_request_def no_call_fields)
    next
      case u: (Inr openwebui_url)
      show ?thesis
      proof (cases "build_request self (target_headers api_key)
               (target_url openwebui_url (drop (length ''/proxy/'') (path self)))")
        case (Inl e)
        with p k u show ?thesis
          by (auto simp: handle_proxy_request_def no_call_fields)
      next
        case (Inr r)
        with assms p k u show ?thesis
          by (simp add: handle_proxy_request_def)
      qed
    qed
  qed
qed

lemma send_error_no_cors: "\<not> has_cors (send_error srv c m)"
  unfolding has_cors_def send_error_headers
  by (simp add: startswith_def lower_def lower_char_def eval_char)

lemma cors_sent_response: "cors_sent (relay srv (Response st hs body))"
  unfolding relay_response cors_sent_def by simp

lemma relay_failure:
  "relay srv (URLError reason) = send_error srv 500 (''URL Error: '' @ reason)"
  "relay srv (Raised m) = send_error srv 500 (''Request failed with error: '' @ m)"
  by (simp_all add: relay_def)

lemma cors_sent_options: "cors_sent (reply (do_OPTIONS srv self))"
  by (simp add: do_OPTIONS_def no_call_def end_headers_def send_cors_headers_def send_header_def
        send_response_def cors_sent_def)

lemma cors_sent_webchat:
  "webchat_html srv = Some content \<Longrightarrow> cors_sent (serve_webchat_file srv)"
  by (simp add: serve_webchat_file_def wfile_write_def end_headers_def send_cors_headers_def
        send_header_def send_response_def cors_sent_def)

text \<open>
  C9: a response produced by \<open>send_error\<close> carries no cross-origin header. Every request
  that \<open>handle_proxy_request\<close> ends without calling the upstream service (missing
  credentials, undecodable key, missing target URL, a failure before the call) is
  answered that way, and so is a transport-level or unexpected failure of the call,
  while a relayed upstream response, a relayed upstream HTTP error, the answer to
  \<open>OPTIONS\<close> and the served page carry the three permissive cross-origin headers.
\<close>

theorem error_path_without_cors:
  "\<not> has_cors (send_error srv c m)
   \<and> (case forwarded (handle_proxy_request srv self) of
        None \<Rightarrow> \<not> has_cors (reply (handle_proxy_request srv self))
      | Some req \<Rightarrow>
         (case urlopen srv req of
            Response st hs body \<Rightarrow> cors_sent (reply (handle_proxy_request srv self))
          | HTTPError c' reason \<Rightarrow> cors_sent (reply (handle_proxy_request srv self))
          | URLError reason \<Rightarrow> \<not> has_cors (reply (handle_proxy_request srv self))
          | Raised m' \<Rightarrow> \<not> has_cors (reply (handle_proxy_request srv self))))
   \<and> cors_sent (reply (do_OPTIONS srv self))
   \<and> (\<forall>content. webchat_html srv = Some content \<longrightarrow> cors_sent (serve_webchat_file srv))"
proof -
  have 2: "case forwarded (handle_proxy_request srv self) of
        None \<Rightarrow> \<not> has_cors (reply (handle_proxy_request srv self))
      | Some req \<Rightarrow>
         (case urlopen srv req of
            Response st hs body \<Rightarrow> cors_sent (reply (handle_proxy_request srv self))
          | HTTPError c' reason \<Rightarrow> cors_sent (reply (handle_proxy_request srv self))
          | URLError reason \<Rightarrow> \<not> has_cors (reply (handle_proxy_request srv self))
          | Raised m' \<Rightarrow> \<not> has_cors (reply (handle_proxy_request srv self)))"
  proof (cases "forwarded (handle_proxy_request srv self)")
    case None
    from not_forwarded_is_error [OF None] obtain c0 m0
      where "reply (handle_proxy_request srv self) = send_error srv c0 m0" by blast
    with None show ?thesis by (simp add: send_error_no_cors)
  next
    case (Some req)
    from forwarded_request [OF Some]
    have r: "reply (handle_proxy_request srv self) = relay srv (urlopen srv req)" by blast
    show ?thesis
      unfolding Some r
      by (cases "urlopen srv req")
         (simp_all add: cors_sent_response cors_sent_http_error relay_failure send_error_no_cors)
  qed
  from send_error_no_cors [of srv c m] 2 cors_sent_options [of srv self] cors_sent_webchat [of srv]
  show ?thesis by blast
qed

theorem error_path_without_cors_witness:
  "\<not> has_cors (reply (handle_proxy_request (example_server (URLError ''Connection refused''))
        (example_request GET ''/proxy/models'' [(''X-API-Key'', ''aGk='')])))
   \<and> \<not> has_cors (reply (handle_proxy_request (example_server (URLError ''Connection refused''))
        (example_request GET ''/proxy/models'' [])))
   \<and> cors_sent (serve_webchat_file (example_server (URLError ''Connection refused'')))"
proof -
  let ?srv = "example_server (URLError ''Connection refused'')"
  let ?r1 = "example_request GET ''/proxy/models'' [(''X-API-Key'', ''aGk='')]"
  let ?r2 = "example_request GET ''/proxy/models'' []"
  let ?req = "\<lparr>full_url = ''https://host/models'', data = None,
           request_headers = target_headers ''hi'', http_method = ''GET''\<rparr>"
  have f1: "forwarded (handle_proxy_request ?srv ?r1) = Some ?req"
    by (simp add: example_defs library_defs handler_defs eval_char)
  have u: "urlopen ?srv ?req = URLError ''Connection refused''"
    by (simp add: example_server_def)
  have f2: "forwarded (handle_proxy_request ?srv ?r2) = None"
    by (simp add: example_defs library_defs handler_defs eval_char)
  have w: "webchat_html ?srv = Some ''<html></html>''"
    by (simp add: example_server_def)
  note t1 = error_path_without_cors [of ?srv 400 "''Invalid proxy path''" ?r1]
  note t2 = error_path_without_cors [of ?srv 400 "''Invalid proxy path''" ?r2]
  from t1 have "case Some ?req of
        None \<Rightarrow> \<not> has_cors (reply (handle_proxy_request ?srv ?r1))
      | Some req \<Rightarrow>
         (case urlopen ?srv req of
            Response st hs body \<Rightarrow> cors_sent (reply (handle_proxy_request ?srv ?r1))
          | HTTPError c' reason \<Rightarrow> cors_sent (reply (handle_proxy_request ?srv ?r1))
          | URLError reason \<Rightarrow> \<not> has_cors (reply (handle_proxy_request ?srv ?r1))
          | Raised m' \<Rightarrow> \<not> has_cors (reply (handle_proxy_request ?srv ?r1)))"
    unfolding f1 by (elim conjE)
  then have a: "\<not> has_cors (reply (handle_proxy_request ?srv ?r1))"
    by (simp add: u)
  from t1 w have c: "cors_sent (serve_webchat_file ?srv)" by blast
  from t2 have "case None :: outbound option of
        None \<Rightarrow> \<not> has_cors (reply (handle_proxy_request ?srv ?r2))
      | Some req \<Rightarrow>
         (case urlopen ?srv req of
            Response st hs body \<Rightarrow> cors_sent (reply (handle_proxy_request ?srv ?r2))
          | HTTPError c' reason \<Rightarrow> cors_sent (reply (handle_proxy_request ?srv ?r2))
          | URLError reason \<Rightarrow> \<not> has_cors (reply (handle_proxy_request ?srv ?r2))
          | Raised m' \<Rightarrow> \<not> has_cors (reply (handle_proxy_request ?srv ?r2)))"
    unfolding f2 by (elim conjE)
  then have b: "\<not> has_cors (reply (handle_proxy_request ?srv ?r2))"
    by simp
  from a b c show ?thesis by (intro conjI)
qed

section \<open>The guard of the proxy path\<close>

lemma resolve_api_key_message:
  assumes "resolve_api_key srv self = Inl (c, m)"
  shows "m = ''Missing X-API-Key header or server-side OPENWEBUI_API_KEY environment variable''
       \<or> (\<exists>e. m = ''Invalid API key encoding: '' @ str_exn srv e)"
  using assms
  by (auto simp: resolve_api_key_def Let_def split: if_splits sum.splits)

lemma resolve_openwebui_url_message:
  assumes "resolve_openwebui_url srv self = Inl (c, m)"
  shows "m = ''Missing X-OpenWebUI-URL header or DEFAULT_OPENWEBUI_URL environment variable''"
  using assms
  by (auto simp: resolve_openwebui_url_def Let_def split: if_splits)

lemma relay_message: "message (relay srv up) \<noteq> Some ''Invalid proxy path''"
proof (cases up)
  case (Response st hs body)
  then show ?thesis unfolding Response relay_response by simp
next
  case (HTTPError c reason)
  then show ?thesis unfolding HTTPError relay_http_error by simp
next
  case (URLError reason)
  then show ?thesis by (simp add: relay_failure send_error_fields)
next
  case (Raised m)
  then show ?thesis by (simp add: relay_failure send_error_fields)
qed

lemma guarded_message:
  assumes p: "startswith (path self) ''/proxy/''"
  shows "message (reply (handle_proxy_request srv self)) \<noteq> Some ''Invalid proxy path''"
proof (cases "resolve_api_key srv self")
  case (Inl cm)
  obtain c m where cm: "cm = (c, m)" by (cases cm)
  from resolve_api_key_message [of srv self c m] Inl cm
  have "m \<noteq> ''Invalid proxy path''" by auto
  with p Inl cm show ?thesis
    by (simp add: rejected_by_key no_call_fields send_error_fields)
next
  case k: (Inr api_key)
  show ?thesis
  proof (cases "resolve_openwebui_url srv self")
    case (Inl cm)
    obtain c m where cm: "cm = (c, m)" by (cases cm)
    from resolve_openwebui_url_message [of srv self c m] Inl cm
    have "m \<noteq> ''Invalid proxy path''" by auto
    with p k Inl cm show ?thesis
      by (simp add: handle_proxy_request_def no_call_fields send_error_fields)
  next
    case u: (Inr openwebui_url)
    show ?thesis
    proof (cases "build_request self (target_headers api_key)
               (target_url openwebui_url (drop (length ''/proxy/'') (path self)))")
      case (Inl e)
      with p k u show ?thesis
        by (simp add: handle_proxy_request_def no_call_fields send_error_fields)
    next
      case (Inr r)
      with p k u show ?thesis
        by (simp add: handle_proxy_request_def relay_message)
    qed
  qed
qed

lemma static_message: "message (serve_webchat_file srv) \<noteq> Some ''Invalid proxy path''"
  by (cases "webchat_html srv")
     (simp_all add: serve_webchat_file_def send_error_fields wfile_write_def end_headers_def
        send_cors_headers_def send_header_def send_response_def)

lemma not_found_message: "message (reply (not_found srv)) = None"
  by (simp add: not_found_def no_call_def wfile_write_def end_headers_def send_response_def)

lemma options_message: "message (reply (do_OPTIONS srv self)) = None"
  by (simp add: do_OPTIONS_def no_call_def end_headers_def send_cors_headers_def send_header_def
        send_response_def)

text \<open>
  C10: \<open>handle_proxy_request\<close> answers \<open>Invalid proxy path\<close> exactly on a path that does
  not start with \<open>/proxy/\<close>, and \<open>do_GET\<close> and \<open>do_POST\<close> call it only on a path that does:
  on every path they give what their own three branches give, the branch of the proxy
  being taken under the guard only, and no response of \<open>do_GET\<close>, \<open>do_POST\<close> or the
  dispatch as a whole carries the message \<open>Invalid proxy path\<close>.
\<close>

theorem invalid_proxy_path_unreachable:
  "(\<not> startswith (path self) ''/proxy/'' \<longrightarrow>
       handle_proxy_request srv self = no_call (send_error srv 400 ''Invalid proxy path''))
   \<and> (startswith (path self) ''/proxy/'' \<longrightarrow>
       message (reply (handle_proxy_request srv self)) \<noteq> Some ''Invalid proxy path'')
   \<and> (\<not> startswith (path self) ''/proxy/'' \<longrightarrow>
       do_GET srv self \<noteq> handle_proxy_request srv self
       \<and> do_POST srv self \<noteq> handle_proxy_request srv self)
   \<and> message (reply (do_GET srv self)) \<noteq> Some ''Invalid proxy path''
   \<and> message (reply (do_POST srv self)) \<noteq> Some ''Invalid proxy path''
   \<and> message (reply (handle srv self)) \<noteq> Some ''Invalid proxy path''"
proof -
  have 1: "\<not> startswith (path self) ''/proxy/'' \<longrightarrow>
       handle_proxy_request srv self = no_call (send_error srv 400 ''Invalid proxy path'')"
    by (simp add: handle_proxy_request_def)
  have 2: "startswith (path self) ''/proxy/'' \<longrightarrow>
       message (reply (handle_proxy_request srv self)) \<noteq> Some ''Invalid proxy path''"
    using guarded_message by blast
  have g: "message (reply (do_GET srv self)) \<noteq> Some ''Invalid proxy path''"
    unfolding do_GET_def
    by (simp add: guarded_message static_message not_found_message no_call_fields)
  have q: "message (reply (do_POST srv self)) \<noteq> Some ''Invalid proxy path''"
    unfolding do_POST_def
    by (simp add: guarded_message not_found_message)
  have h: "message (reply (handle srv self)) \<noteq> Some ''Invalid proxy path''"
    unfolding handle_def using g q options_message [of srv self]
    by (cases "command self") simp_all
  have 3: "\<not> startswith (path self) ''/proxy/'' \<longrightarrow>
       do_GET srv self \<noteq> handle_proxy_request srv self
       \<and> do_POST srv self \<noteq> handle_proxy_request srv self"
  proof
    assume n: "\<not> startswith (path self) ''/proxy/''"
    with 1 have "message (reply (handle_proxy_request srv self)) = Some ''Invalid proxy path''"
      by (simp add: no_call_fields send_error_fields)
    with g q show "do_GET srv self \<noteq> handle_proxy_request srv self
       \<and> do_POST srv self \<noteq> handle_proxy_request srv self"
      by metis
  qed
  from 1 2 3 g q h show ?thesis by (simp only: simp_thms)
qed

theorem invalid_proxy_path_unreachable_witness:
  "handle_proxy_request (example_server (Response 200 [] ''ok'')) (example_request GET ''/models'' [])
     = no_call (send_error (example_server (Response 200 [] ''ok'')) 400 ''Invalid proxy path'')
   \<and> do_GET (example_server (Response 200 [] ''ok'')) (example_request GET ''/models'' [])
       \<noteq> handle_proxy_request (example_server (Response 200 [] ''ok''))
            (example_request GET ''/models'' [])
   \<and> message (reply (handle_proxy_request (example_server (Response 200 [] ''ok''))
        (example_request GET ''/proxy/models'' []))) \<noteq> Some ''Invalid proxy path''"
proof -
  let ?srv = "example_server (Response 200 [] ''ok'')"
  let ?r1 = "example_request GET ''/models'' []"
  let ?r2 = "example_request GET ''/proxy/models'' []"
  have n: "\<not> startswith (path ?r1) ''/proxy/''"
    by (simp add: example_request_def startswith_def)
  have y: "startswith (path ?r2) ''/proxy/''"
    by (simp add: example_request_def startswith_def)
  note t1 = invalid_proxy_path_unreachable [of ?r1 ?srv]
  note t2 = invalid_proxy_path_unreachable [of ?r2 ?srv]
  from t1 n have a: "handle_proxy_request ?srv ?r1 =
      no_call (send_error ?srv 400 ''Invalid proxy path'')" by blast
  from t1 n have b: "do_GET ?srv ?r1 \<noteq> handle_proxy_request ?srv ?r1" by blast
  from t2 y have c: "message (reply (handle_proxy_request ?srv ?r2)) \<noteq> Some ''Invalid proxy path''"
    by blast
  from a b c show ?thesis by (intro conjI)
qed

end
